theory Spec2Isabelle
  imports Main
begin

section \<open>The rate limiter of the Gemini analyzer panel\<close>

text \<open>
  Source: \<^verbatim>\<open>src/gemi-gemini-panel/src/components/SimplePanel.tsx\<close>, class
  \<^verbatim>\<open>RateLimiter\<close> (lines 13 to 59) and the two places where the panel component
  builds one (lines 122 to 134).

  Modelling decisions.
  \<^item> The class is a record of its five fields; every method takes the record and
    returns the updated record next to its result.
  \<^item> Each method starts with \<^verbatim>\<open>const now = Date.now()\<close>. The clock reading is the
    method's first argument here, one argument per method call, so two calls may see two
    different readings, as in the source.
  \<^item> \<^verbatim>\<open>Date.now()\<close> is an integer number of milliseconds and the counter only
    takes the values reached from 0 by \<^verbatim>\<open>++\<close>, so the fields are of type \<open>int\<close>. A
    JavaScript number is a double, exact on integers below \<open>2 ^ 53\<close>; the model does not
    cover larger magnitudes or fractional configuration values.
\<close>

record RateLimiter =
  lastCallTime :: int
  callsInWindow :: int
  windowStartTime :: int
  maxCallsPerMinute :: int
  minTimeBetweenCalls :: int

text \<open>
  The constructor. Its two parameters have the default values 10 and 2000, used when
  the argument is missing (\<open>None\<close>); \<open>lastCallTime\<close> and \<open>callsInWindow\<close> start at 0
  from their field initialisers, and \<open>windowStartTime\<close> is set to the clock reading.
\<close>

definition new_RateLimiter :: "int \<Rightarrow> int option \<Rightarrow> int option \<Rightarrow> RateLimiter" where
  "new_RateLimiter now maxCalls minTime =
     \<lparr> lastCallTime = 0,
       callsInWindow = 0,
       windowStartTime = now,
       maxCallsPerMinute = (case maxCalls of None \<Rightarrow> 10 | Some m \<Rightarrow> m),
       minTimeBetweenCalls = (case minTime of None \<Rightarrow> 2000 | Some m \<Rightarrow> m) \<rparr>"

text \<open>
  \<^verbatim>\<open>canMakeCall\<close>: the window is reset first when more than 60000 ms have passed since
  its start, then both limits are tested on the possibly reset state.
\<close>

definition canMakeCall :: "int \<Rightarrow> RateLimiter \<Rightarrow> bool \<times> RateLimiter" where
  "canMakeCall now s =
     (let s1 = (if now - windowStartTime s > 60000
                then s\<lparr> callsInWindow := 0, windowStartTime := now \<rparr>
                else s);
          timeSinceLastCall = now - lastCallTime s1
      in (callsInWindow s1 < maxCallsPerMinute s1 \<and>
          timeSinceLastCall \<ge> minTimeBetweenCalls s1, s1))"

text \<open>\<^verbatim>\<open>recordCall\<close> returns nothing; the model returns the updated state.\<close>

definition recordCall :: "int \<Rightarrow> RateLimiter \<Rightarrow> RateLimiter" where
  "recordCall now s = s\<lparr> lastCallTime := now, callsInWindow := callsInWindow s + 1 \<rparr>"

text \<open>
  \<^verbatim>\<open>getTimeUntilNextCallAllowed\<close> has no assignment to a field; the state it returns
  is the one it was given.
\<close>

definition getTimeUntilNextCallAllowed :: "int \<Rightarrow> RateLimiter \<Rightarrow> int \<times> RateLimiter" where
  "getTimeUntilNextCallAllowed now s =
     (let timeSinceLastCall = now - lastCallTime s
      in if callsInWindow s \<ge> maxCallsPerMinute s
         then (windowStartTime s + 60000 - now, s)
         else if timeSinceLastCall < minTimeBetweenCalls s
         then (minTimeBetweenCalls s - timeSinceLastCall, s)
         else (0, s))"

subsection \<open>Histories of method calls\<close>

text \<open>
  A reachable state of a limiter is what a finite sequence of method calls, each with
  its own clock reading, leaves behind a freshly constructed limiter.
\<close>

datatype event = CanMakeCall int | RecordCall int | GetTimeUntilNextCallAllowed int

fun step :: "RateLimiter \<Rightarrow> event \<Rightarrow> RateLimiter" where
  "step s (CanMakeCall now) = snd (canMakeCall now s)"
| "step s (RecordCall now) = recordCall now s"
| "step s (GetTimeUntilNextCallAllowed now) = snd (getTimeUntilNextCallAllowed now s)"

definition run :: "event list \<Rightarrow> RateLimiter \<Rightarrow> RateLimiter" where
  "run es s = foldl step s es"

fun time_of :: "event \<Rightarrow> int" where
  "time_of (CanMakeCall now) = now"
| "time_of (RecordCall now) = now"
| "time_of (GetTimeUntilNextCallAllowed now) = now"

fun is_record :: "event \<Rightarrow> bool" where
  "is_record (RecordCall now) = True"
| "is_record e = False"

text \<open>The same check repeated \<open>n\<close> times at one clock reading, results collected.\<close>

fun canMakeCall_times :: "nat \<Rightarrow> int \<Rightarrow> RateLimiter \<Rightarrow> bool list \<times> RateLimiter" where
  "canMakeCall_times 0 now s = ([], s)"
| "canMakeCall_times (Suc n) now s =
     (let (b, s1) = canMakeCall now s;
          (bs, s2) = canMakeCall_times n now s1
      in (b # bs, s2))"

subsection \<open>The panel's construction of its limiter\<close>

text \<open>
  Modelled from the spec: the declaration of \<^verbatim>\<open>GeminiAnalyzerOptions\<close> is in
  \<^verbatim>\<open>../types\<close>, which is not among the sources. The two options read here are
  registered as number inputs in \<^verbatim>\<open>module.ts\<close> (lines 29 to 40) and the spec calls
  them the configured maximum per window and minimum interval, so each is a number that
  may also be absent or not a number.
\<close>

datatype jsval = JUndefined | JNaN | JNum int

record GeminiAnalyzerOptions =
  opt_maxCallsPerMinute :: jsval
  opt_minTimeBetweenCalls :: jsval

text \<open>
  JavaScript's \<^verbatim>\<open>a || b\<close> with a numeric literal \<open>b\<close>: the left operand when it is
  truthy, else \<open>b\<close>. Among the values of \<open>jsval\<close> the falsy ones are \<open>undefined\<close>,
  \<open>NaN\<close> and zero.
\<close>

fun falsy :: "jsval \<Rightarrow> bool" where
  "falsy JUndefined = True"
| "falsy JNaN = True"
| "falsy (JNum n) = (n = 0)"

fun js_or :: "jsval \<Rightarrow> int \<Rightarrow> int" where
  "js_or (JNum n) d = (if n = 0 then d else n)"
| "js_or v d = d"

text \<open>
  The initial value of \<^verbatim>\<open>rateLimiterRef\<close> (lines 123 to 126) and the value the effect
  stores in it when one of the two options has changed (lines 129 to 134); the effect
  discards the limiter that was there.
\<close>

definition rateLimiterRef_initial :: "int \<Rightarrow> GeminiAnalyzerOptions \<Rightarrow> RateLimiter" where
  "rateLimiterRef_initial now options =
     new_RateLimiter now
       (Some (js_or (opt_maxCallsPerMinute options) 10))
       (Some (js_or (opt_minTimeBetweenCalls options) 2000))"

definition rateLimiterRef_effect :: "int \<Rightarrow> GeminiAnalyzerOptions \<Rightarrow> RateLimiter \<Rightarrow> RateLimiter" where
  "rateLimiterRef_effect now options current =
     new_RateLimiter now
       (Some (js_or (opt_maxCallsPerMinute options) 10))
       (Some (js_or (opt_minTimeBetweenCalls options) 2000))"

section \<open>Basic facts\<close>

lemma canMakeCall_state:
  "snd (canMakeCall now s) =
     (if now - windowStartTime s > 60000
      then s\<lparr> callsInWindow := 0, windowStartTime := now \<rparr> else s)"
  by (simp add: canMakeCall_def Let_def)

lemma canMakeCall_result:
  "fst (canMakeCall now s) =
     ((if now - windowStartTime s > 60000 then 0 else callsInWindow s) < maxCallsPerMinute s
      \<and> minTimeBetweenCalls s \<le> now - lastCallTime s)"
  by (simp add: canMakeCall_def Let_def)

lemma getTime_state: "snd (getTimeUntilNextCallAllowed now s) = s"
  by (simp add: getTimeUntilNextCallAllowed_def Let_def)

lemma step_config:
  "maxCallsPerMinute (step s e) = maxCallsPerMinute s \<and>
   minTimeBetweenCalls (step s e) = minTimeBetweenCalls s"
  by (cases e) (simp_all add: canMakeCall_state recordCall_def getTime_state)

lemma run_config:
  "maxCallsPerMinute (run es s) = maxCallsPerMinute s \<and>
   minTimeBetweenCalls (run es s) = minTimeBetweenCalls s"
  unfolding run_def
  by (induction es arbitrary: s) (simp_all add: step_config)

lemma step_count_nonneg: "0 \<le> callsInWindow s \<Longrightarrow> 0 \<le> callsInWindow (step s e)"
  by (cases e) (simp_all add: canMakeCall_state recordCall_def getTime_state)

lemma run_count_nonneg: "0 \<le> callsInWindow s \<Longrightarrow> 0 \<le> callsInWindow (run es s)"
  unfolding run_def
  by (induction es arbitrary: s) (simp_all add: step_count_nonneg)

lemma new_count_nonneg: "0 \<le> callsInWindow (run es (new_RateLimiter t0 mx mn))"
  by (rule run_count_nonneg) (simp add: new_RateLimiter_def)

section \<open>Claims\<close>

text \<open>
  C10. For every state and every clock reading, \<^verbatim>\<open>recordCall\<close> sets \<open>lastCallTime\<close>
  to the reading and adds exactly one to \<open>callsInWindow\<close>; the window start and the two
  limits are unchanged, whatever the time elapsed since the window start, so it never
  resets the window.
\<close>

theorem recordCall_frame:
  "lastCallTime (recordCall now s) = now \<and>
   callsInWindow (recordCall now s) = callsInWindow s + 1 \<and>
   windowStartTime (recordCall now s) = windowStartTime s \<and>
   maxCallsPerMinute (recordCall now s) = maxCallsPerMinute s \<and>
   minTimeBetweenCalls (recordCall now s) = minTimeBetweenCalls s \<and>
   recordCall now s = s\<lparr> lastCallTime := now, callsInWindow := callsInWindow s + 1 \<rparr>"
  by (simp add: recordCall_def)

text \<open>
  C8. For every state and every clock reading, \<^verbatim>\<open>canMakeCall\<close> leaves
  \<open>lastCallTime\<close> and the two limits as they were and changes \<open>callsInWindow\<close> only by
  setting it to 0 when the window rolls over (more than 60000 ms since the window
  start); \<^verbatim>\<open>getTimeUntilNextCallAllowed\<close> returns the state it was given, every
  field unchanged.
\<close>

theorem canMakeCall_getTime_frame:
  "lastCallTime (snd (canMakeCall now s)) = lastCallTime s \<and>
   maxCallsPerMinute (snd (canMakeCall now s)) = maxCallsPerMinute s \<and>
   minTimeBetweenCalls (snd (canMakeCall now s)) = minTimeBetweenCalls s \<and>
   callsInWindow (snd (canMakeCall now s)) =
     (if now - windowStartTime s > 60000 then 0 else callsInWindow s) \<and>
   windowStartTime (snd (canMakeCall now s)) =
     (if now - windowStartTime s > 60000 then now else windowStartTime s) \<and>
   snd (getTimeUntilNextCallAllowed now s) = s"
  by (simp add: canMakeCall_state getTime_state)

text \<open>
  C6. For every state and every clock reading, \<^verbatim>\<open>canMakeCall\<close> called again at the
  same reading returns the same boolean and leaves the state of the first call as it
  is: a window reset can only happen in the first call. Repeated any number of times,
  every result is the first one and the final state is the state after the first call.
\<close>

theorem canMakeCall_idempotent:
  "canMakeCall now (snd (canMakeCall now s)) =
     (fst (canMakeCall now s), snd (canMakeCall now s)) \<and>
   canMakeCall_times (Suc n) now s =
     (replicate (Suc n) (fst (canMakeCall now s)), snd (canMakeCall now s))"
proof -
  have again: "canMakeCall now (snd (canMakeCall now s)) = canMakeCall now s"
    by (simp add: canMakeCall_def Let_def)
  have fixed: "canMakeCall_times k now (snd (canMakeCall now s)) =
      (replicate k (fst (canMakeCall now s)), snd (canMakeCall now s))" for k
  proof (induction k)
    case 0
    show ?case by simp
  next
    case (Suc k)
    then show ?case by (simp add: again split_beta)
  qed
  have "canMakeCall_times (Suc n) now s =
      (fst (canMakeCall now s) #
         fst (canMakeCall_times n now (snd (canMakeCall now s))),
       snd (canMakeCall_times n now (snd (canMakeCall now s))))"
    by (simp add: split_beta Let_def)
  then show ?thesis by (simp add: again fixed)
qed

text \<open>
  C5. A limiter constructed with a maximum per window that is zero or negative denies
  every call: after any history of method calls and at every clock reading,
  \<^verbatim>\<open>canMakeCall\<close> returns false, window rollovers included. No error is raised; the
  answer is a boolean.
\<close>

theorem canMakeCall_nonpositive_max:
  assumes "mx \<le> 0"
  shows "\<not> fst (canMakeCall now (run es (new_RateLimiter t0 (Some mx) mn)))"
proof -
  let ?s = "run es (new_RateLimiter t0 (Some mx) mn)"
  have "maxCallsPerMinute ?s = mx"
    by (simp add: run_config new_RateLimiter_def)
  moreover have "0 \<le> callsInWindow ?s"
    by (rule new_count_nonneg)
  ultimately show ?thesis
    using assms by (simp add: canMakeCall_result)
qed

theorem canMakeCall_nonpositive_max_witness:
  "(0::int) \<le> 0 \<and>
   \<not> fst (canMakeCall 200000
         (run [CanMakeCall 0, RecordCall 0, CanMakeCall 70000, CanMakeCall 140000]
            (new_RateLimiter 0 (Some 0) (Some 2000))))"
  using canMakeCall_nonpositive_max
    [of 0 200000 "[CanMakeCall 0, RecordCall 0, CanMakeCall 70000, CanMakeCall 140000]"
        0 "Some 2000"]
  by simp

text \<open>
  A history whose method calls all happen no later than 60000 ms after the window
  start leaves the window start where it is and adds its recorded calls to the count.
\<close>

lemma run_within_window:
  assumes "\<forall>e \<in> set es. time_of e - windowStartTime s \<le> 60000"
  shows "windowStartTime (run es s) = windowStartTime s \<and>
         callsInWindow (run es s) = callsInWindow s + int (length (filter is_record es))"
  using assms
proof (induction es arbitrary: s)
  case Nil
  show ?case by (simp add: run_def)
next
  case (Cons e es)
  have here: "time_of e - windowStartTime s \<le> 60000"
    using Cons.prems by simp
  have one: "windowStartTime (step s e) = windowStartTime s \<and>
             callsInWindow (step s e) = callsInWindow s + (if is_record e then 1 else 0)"
    using here by (cases e) (simp_all add: canMakeCall_state recordCall_def getTime_state)
  have rest: "\<forall>x \<in> set es. time_of x - windowStartTime (step s e) \<le> 60000"
    using Cons.prems one by simp
  have "run (e # es) s = run es (step s e)"
    by (simp add: run_def)
  then show ?case
    using Cons.IH [OF rest] one by simp
qed

text \<open>
  C4. Take a maximum per window of at least 1 and any window of a limiter: the first
  one, opened by the constructor, or a later one, opened after an arbitrary history
  \<open>pre\<close> by a \<^verbatim>\<open>canMakeCall\<close> at a reading \<open>tw\<close> more than 60000 ms after the
  window start of that moment. \<open>w\<close> is the limiter's state when the window opens.
  After a further history \<open>es\<close> in which exactly the maximum number of calls is
  recorded and every method call happens no later than 60000 ms after the window
  start, the window start is unchanged and the window is full; \<^verbatim>\<open>canMakeCall\<close> then
  returns false at every reading at most 60000 ms after the window start, and at a
  reading more than 60000 ms after it, it moves the window start to that reading and
  sets the count to 0. The spacing of the recorded calls plays no part. The witness
  is scenario B of the spec for a first window, and a second window of the same
  configuration.
\<close>

theorem canMakeCall_full_window:
  assumes "1 \<le> mx"
    and "w = new_RateLimiter t0 (Some mx) mn \<or>
         (60000 < tw - windowStartTime (run pre (new_RateLimiter t0 (Some mx) mn)) \<and>
          w = snd (canMakeCall tw (run pre (new_RateLimiter t0 (Some mx) mn))))"
    and "int (length (filter is_record es)) = mx"
    and "\<forall>e \<in> set es. time_of e - windowStartTime w \<le> 60000"
  shows "windowStartTime (run es w) = windowStartTime w \<and>
         callsInWindow (run es w) = mx \<and>
         (now - windowStartTime w \<le> 60000 \<longrightarrow> \<not> fst (canMakeCall now (run es w))) \<and>
         (60000 < now - windowStartTime w \<longrightarrow>
            callsInWindow (snd (canMakeCall now (run es w))) = 0 \<and>
            windowStartTime (snd (canMakeCall now (run es w))) = now)"
proof -
  have opened: "callsInWindow w = 0 \<and> maxCallsPerMinute w = mx"
    using assms(2)
  proof
    assume "w = new_RateLimiter t0 (Some mx) mn"
    then show ?thesis by (simp add: new_RateLimiter_def)
  next
    assume rolled: "60000 < tw - windowStartTime (run pre (new_RateLimiter t0 (Some mx) mn)) \<and>
        w = snd (canMakeCall tw (run pre (new_RateLimiter t0 (Some mx) mn)))"
    have "maxCallsPerMinute (run pre (new_RateLimiter t0 (Some mx) mn)) = mx"
      by (simp add: run_config new_RateLimiter_def)
    then show ?thesis
      using rolled by (simp add: canMakeCall_state)
  qed
  have start: "windowStartTime (run es w) = windowStartTime w"
    and full: "callsInWindow (run es w) = mx"
    using run_within_window [OF assms(4)] assms(3) opened by simp_all
  have cfg: "maxCallsPerMinute (run es w) = mx"
    using opened by (simp add: run_config)
  show ?thesis
    using start full cfg
    by (simp add: canMakeCall_result canMakeCall_state)
qed

theorem canMakeCall_full_window_witness:
  "\<not> fst (canMakeCall 0 (run [RecordCall 0, RecordCall 0] (new_RateLimiter 0 (Some 2) (Some 0)))) \<and>
   callsInWindow (snd (canMakeCall 60001
       (run [RecordCall 0, RecordCall 0] (new_RateLimiter 0 (Some 2) (Some 0))))) = 0 \<and>
   fst (canMakeCall 60001 (run [RecordCall 0, RecordCall 0] (new_RateLimiter 0 (Some 2) (Some 0)))) \<and>
   60000 < 70000 - windowStartTime (run [RecordCall 0] (new_RateLimiter 0 (Some 2) (Some 0))) \<and>
   \<not> fst (canMakeCall 70002
       (run [RecordCall 70000, RecordCall 70001]
          (snd (canMakeCall 70000 (run [RecordCall 0] (new_RateLimiter 0 (Some 2) (Some 0))))))) \<and>
   callsInWindow (snd (canMakeCall 130001
       (run [RecordCall 70000, RecordCall 70001]
          (snd (canMakeCall 70000 (run [RecordCall 0] (new_RateLimiter 0 (Some 2) (Some 0)))))))) = 0"
proof -
  let ?n = "new_RateLimiter 0 (Some 2) (Some 0)"
  let ?w = "snd (canMakeCall 70000 (run [RecordCall 0] ?n))"
  have a: "(1::int) \<le> 2" by simp
  have first: "?n = new_RateLimiter 0 (Some 2) (Some 0) \<or>
      (60000 < 70000 - windowStartTime (run [RecordCall 0] (new_RateLimiter 0 (Some 2) (Some 0))) \<and>
       ?n = snd (canMakeCall 70000 (run [RecordCall 0] (new_RateLimiter 0 (Some 2) (Some 0)))))"
    by simp
  have late: "60000 < 70000 - windowStartTime (run [RecordCall 0] ?n)"
    by (simp add: run_def recordCall_def new_RateLimiter_def)
  then have second: "?w = new_RateLimiter 0 (Some 2) (Some 0) \<or>
      (60000 < 70000 - windowStartTime (run [RecordCall 0] (new_RateLimiter 0 (Some 2) (Some 0))) \<and>
       ?w = snd (canMakeCall 70000 (run [RecordCall 0] (new_RateLimiter 0 (Some 2) (Some 0)))))"
    by simp
  have b1: "int (length (filter is_record [RecordCall 0, RecordCall 0])) = 2" by simp
  have b2: "int (length (filter is_record [RecordCall 70000, RecordCall 70001])) = 2" by simp
  have ws1: "windowStartTime ?n = 0"
    by (simp add: new_RateLimiter_def)
  have ws2: "windowStartTime ?w = 70000"
    using late by (simp add: canMakeCall_state)
  have c1: "\<forall>e \<in> set [RecordCall 0, RecordCall 0]. time_of e - windowStartTime ?n \<le> 60000"
    by (simp add: ws1)
  have c2: "\<forall>e \<in> set [RecordCall 70000, RecordCall 70001]. time_of e - windowStartTime ?w \<le> 60000"
    by (simp add: ws2)
  have admitted: "fst (canMakeCall 60001 (run [RecordCall 0, RecordCall 0] ?n))"
    by (simp add: canMakeCall_result run_def recordCall_def new_RateLimiter_def)
  show ?thesis
    using canMakeCall_full_window [OF a first b1 c1, of 0]
      canMakeCall_full_window [OF a first b1 c1, of 60001]
      canMakeCall_full_window [OF a second b2 c2, of 70002]
      canMakeCall_full_window [OF a second b2 c2, of 130001]
      admitted late
    by (simp add: ws1 ws2)
qed

text \<open>
  C1, as amended. A fresh limiter with a positive maximum per window answers
  \<^verbatim>\<open>canMakeCall\<close> with true exactly when the clock reading is at least the minimum
  interval: \<open>lastCallTime\<close> starts at 0, the epoch, and the spacing test is applied to
  it as to any recorded call; there is no value for "never". With no hypothesis on the
  minimum interval or on the reading relative to the construction time.
\<close>

theorem canMakeCall_fresh:
  assumes "0 < mx"
  shows "fst (canMakeCall now (new_RateLimiter t0 (Some mx) (Some mn))) = (mn \<le> now)"
  using assms by (simp add: canMakeCall_result new_RateLimiter_def)

theorem canMakeCall_fresh_witness:
  "(0::int) < 10 \<and>
   fst (canMakeCall 1700000000000 (new_RateLimiter 1700000000000 (Some 10) (Some 2000)))"
  using canMakeCall_fresh [of 10 1700000000000 1700000000000 2000]
  by simp

text \<open>
  C1, as stated, fails: a valid configuration (maximum 10, minimum interval
  2000000000000 ms), a limiter constructed at the reading 1700000000000 and checked at
  that same reading, before any call is recorded. The check returns false.
\<close>

theorem canMakeCall_fresh_counterexample:
  "(0::int) < 10 \<and> (0::int) \<le> 2000000000000 \<and> (1700000000000::int) \<le> 1700000000000 \<and>
   \<not> fst (canMakeCall 1700000000000
         (new_RateLimiter 1700000000000 (Some 10) (Some 2000000000000)))"
  by (simp add: canMakeCall_result new_RateLimiter_def)

text \<open>
  The first step of the spec's scenario A (maximum 10, minimum interval 2000, clock
  at 0) meets the same test: the check at reading 0 is denied.
\<close>

lemma scenario_A_first_check:
  "\<not> fst (canMakeCall 0 (new_RateLimiter 0 (Some 10) (Some 2000)))"
  by (simp add: canMakeCall_result new_RateLimiter_def)

text \<open>
  C2. \<^verbatim>\<open>getTimeUntilNextCallAllowed\<close> returns \<open>windowStartTime + 60000 - now\<close> as it
  is when the window is full, with no lower bound of zero. A limiter with maximum 2 and
  minimum interval 2000 is constructed at 1700000000000 and used as the panel uses it
  (check, then record) at 1700000000000 and 1700000002000. Asked 70 seconds after the
  construction, it answers -10000. Checked exactly 60000 ms after the construction it
  denies the call without resetting the window, and asked one millisecond later it
  answers -1.
\<close>

theorem getTimeUntilNextCallAllowed_negative:
  "fst (getTimeUntilNextCallAllowed 1700000070000
     (run [CanMakeCall 1700000000000, RecordCall 1700000000000,
           CanMakeCall 1700000002000, RecordCall 1700000002000]
        (new_RateLimiter 1700000000000 (Some 2) (Some 2000)))) = - 10000 \<and>
   \<not> fst (canMakeCall 1700000060000
     (run [CanMakeCall 1700000000000, RecordCall 1700000000000,
           CanMakeCall 1700000002000, RecordCall 1700000002000]
        (new_RateLimiter 1700000000000 (Some 2) (Some 2000)))) \<and>
   fst (getTimeUntilNextCallAllowed 1700000060001
     (run [CanMakeCall 1700000000000, RecordCall 1700000000000,
           CanMakeCall 1700000002000, RecordCall 1700000002000,
           CanMakeCall 1700000060000]
        (new_RateLimiter 1700000000000 (Some 2) (Some 2000)))) = - 1"
  by (simp add: run_def canMakeCall_state canMakeCall_result recordCall_def
      getTimeUntilNextCallAllowed_def new_RateLimiter_def)

text \<open>
  What does hold: the answer is not negative as long as the reading is at most
  60000 ms after the window start, as it is at the reading of a check just made.
\<close>

lemma getTimeUntilNextCallAllowed_nonneg_in_window:
  "now - windowStartTime s \<le> 60000 \<Longrightarrow> 0 \<le> fst (getTimeUntilNextCallAllowed now s)"
  by (simp add: getTimeUntilNextCallAllowed_def Let_def)

lemma getTimeUntilNextCallAllowed_nonneg_after_check:
  "0 \<le> fst (getTimeUntilNextCallAllowed now (snd (canMakeCall now s)))"
  by (rule getTimeUntilNextCallAllowed_nonneg_in_window) (simp add: canMakeCall_state)

text \<open>
  C3, as amended. In every reachable state whose window is not full
  (\<open>callsInWindow < maxCallsPerMinute\<close>), so that the advised wait comes from the
  spacing branch or is 0, \<^verbatim>\<open>canMakeCall\<close> returns true at the reading plus the advised
  wait, no call being recorded in between. Nothing is said about a full window.
\<close>

theorem canMakeCall_after_wait:
  assumes "callsInWindow (run es (new_RateLimiter t0 mx mn))
             < maxCallsPerMinute (run es (new_RateLimiter t0 mx mn))"
  shows "fst (canMakeCall
            (now + fst (getTimeUntilNextCallAllowed now (run es (new_RateLimiter t0 mx mn))))
            (run es (new_RateLimiter t0 mx mn)))"
proof -
  let ?s = "run es (new_RateLimiter t0 mx mn)"
  have nonneg: "0 \<le> callsInWindow ?s"
    by (rule new_count_nonneg)
  then have pos: "0 < maxCallsPerMinute ?s"
    using assms by simp
  show ?thesis
  proof (cases "now - lastCallTime ?s < minTimeBetweenCalls ?s")
    case True
    then have "fst (getTimeUntilNextCallAllowed now ?s)
        = minTimeBetweenCalls ?s - (now - lastCallTime ?s)"
      using assms by (simp add: getTimeUntilNextCallAllowed_def Let_def)
    then show ?thesis
      using assms pos by (simp add: canMakeCall_result)
  next
    case False
    then have "fst (getTimeUntilNextCallAllowed now ?s) = 0"
      using assms by (simp add: getTimeUntilNextCallAllowed_def Let_def)
    then show ?thesis
      using assms pos False by (simp add: canMakeCall_result)
  qed
qed

theorem canMakeCall_after_wait_witness:
  "callsInWindow (run [RecordCall 0] (new_RateLimiter 0 (Some 10) (Some 2000)))
     < maxCallsPerMinute (run [RecordCall 0] (new_RateLimiter 0 (Some 10) (Some 2000))) \<and>
   fst (getTimeUntilNextCallAllowed 1000
          (run [RecordCall 0] (new_RateLimiter 0 (Some 10) (Some 2000)))) = 1000 \<and>
   fst (canMakeCall 2000 (run [RecordCall 0] (new_RateLimiter 0 (Some 10) (Some 2000))))"
proof -
  have small: "callsInWindow (run [RecordCall 0] (new_RateLimiter 0 (Some 10) (Some 2000)))
     < maxCallsPerMinute (run [RecordCall 0] (new_RateLimiter 0 (Some 10) (Some 2000)))"
    by (simp add: run_def recordCall_def new_RateLimiter_def)
  have wait: "fst (getTimeUntilNextCallAllowed 1000
          (run [RecordCall 0] (new_RateLimiter 0 (Some 10) (Some 2000)))) = 1000"
    by (simp add: run_def recordCall_def new_RateLimiter_def getTimeUntilNextCallAllowed_def)
  show ?thesis
    using small wait canMakeCall_after_wait [OF small, of 1000]
    by simp
qed

text \<open>
  C3, as stated, fails in the state of the spec's scenario B (maximum 2, minimum
  interval 0, two calls recorded at 0 in a window that starts at 0): at the reading 0
  the advised wait is 60000, and the check at 0 + 60000 is denied, because the window
  is reset only when more than 60000 ms have passed.
\<close>

theorem canMakeCall_after_wait_counterexample:
  "fst (getTimeUntilNextCallAllowed 0
          (run [RecordCall 0, RecordCall 0] (new_RateLimiter 0 (Some 2) (Some 0)))) = 60000 \<and>
   \<not> fst (canMakeCall
          (0 + fst (getTimeUntilNextCallAllowed 0
                 (run [RecordCall 0, RecordCall 0] (new_RateLimiter 0 (Some 2) (Some 0)))))
          (run [RecordCall 0, RecordCall 0] (new_RateLimiter 0 (Some 2) (Some 0))))"
  by (simp add: run_def canMakeCall_result recordCall_def
      getTimeUntilNextCallAllowed_def new_RateLimiter_def)

text \<open>
  A full window whose last call is recent is denied after the advised wait for a
  second reason, the spacing limit: maximum 1, minimum interval 5000, one call
  recorded at 58000. At 59000 the advised wait is 1000; the check is denied at 60000
  and still denied at 60001, after the window has been reset.
\<close>

lemma full_window_then_spacing:
  "fst (getTimeUntilNextCallAllowed 59000
          (run [RecordCall 58000] (new_RateLimiter 0 (Some 1) (Some 5000)))) = 1000 \<and>
   \<not> fst (canMakeCall 60000 (run [RecordCall 58000] (new_RateLimiter 0 (Some 1) (Some 5000)))) \<and>
   \<not> fst (canMakeCall 60001 (run [RecordCall 58000] (new_RateLimiter 0 (Some 1) (Some 5000))))"
  by (simp add: run_def canMakeCall_result recordCall_def
      getTimeUntilNextCallAllowed_def new_RateLimiter_def)

text \<open>
  C7, as amended. Right after \<^verbatim>\<open>canMakeCall\<close> at a reading \<open>now\<close>, in any state,
  \<open>now - windowStartTime \<le> 60000\<close>. \<^verbatim>\<open>recordCall\<close> leaves the window start as it
  is, so after a recorded call the bound holds when it held before the call, as it does
  when the call is recorded at the reading of the check that admitted it.
\<close>

theorem canMakeCall_window_bound:
  "now - windowStartTime (snd (canMakeCall now s)) \<le> 60000 \<and>
   windowStartTime (recordCall t s) = windowStartTime s \<and>
   now - windowStartTime (recordCall now (snd (canMakeCall now s))) \<le> 60000"
  by (simp add: canMakeCall_state recordCall_def)

text \<open>
  C7, as stated, fails for the recorded call: on a fresh limiter whose window starts
  at 0, a call recorded at 70000 leaves the window start at 0, more than 60000 ms
  before the reading.
\<close>

theorem recordCall_window_counterexample:
  "windowStartTime (new_RateLimiter 0 (Some 10) (Some 2000)) \<le> 70000 \<and>
   \<not> (70000 - windowStartTime (recordCall 70000 (new_RateLimiter 0 (Some 10) (Some 2000)))
        \<le> 60000)"
  by (simp add: recordCall_def new_RateLimiter_def)

text \<open>
  C9. Both when the panel mounts and when the effect runs after a change of the two
  options, the limiter is built from \<^verbatim>\<open>options.maxCallsPerMinute || 10\<close> and
  \<^verbatim>\<open>options.minTimeBetweenCalls || 2000\<close>: an option that is zero, absent or not a
  number gives the default, any other number is passed as it is. So the limiter's
  maximum per window is never 0 (and its minimum interval is never 0).
\<close>

theorem panel_limiter_defaults:
  "(falsy (opt_maxCallsPerMinute options) \<longrightarrow>
      maxCallsPerMinute (rateLimiterRef_initial now options) = 10) \<and>
   (falsy (opt_minTimeBetweenCalls options) \<longrightarrow>
      minTimeBetweenCalls (rateLimiterRef_initial now options) = 2000) \<and>
   (\<not> falsy (opt_maxCallsPerMinute options) \<longrightarrow>
      JNum (maxCallsPerMinute (rateLimiterRef_initial now options)) = opt_maxCallsPerMinute options) \<and>
   (\<not> falsy (opt_minTimeBetweenCalls options) \<longrightarrow>
      JNum (minTimeBetweenCalls (rateLimiterRef_initial now options)) = opt_minTimeBetweenCalls options) \<and>
   maxCallsPerMinute (rateLimiterRef_initial now options) \<noteq> 0 \<and>
   minTimeBetweenCalls (rateLimiterRef_initial now options) \<noteq> 0 \<and>
   rateLimiterRef_effect now options current = rateLimiterRef_initial now options"
proof -
  have or_cases: "(falsy v \<longrightarrow> js_or v d = d) \<and> (\<not> falsy v \<longrightarrow> JNum (js_or v d) = v) \<and>
      (d \<noteq> 0 \<longrightarrow> js_or v d \<noteq> 0)" for v d
    by (cases v) simp_all
  have mx: "maxCallsPerMinute (rateLimiterRef_initial now options)
      = js_or (opt_maxCallsPerMinute options) 10"
    by (simp add: rateLimiterRef_initial_def new_RateLimiter_def)
  have mn: "minTimeBetweenCalls (rateLimiterRef_initial now options)
      = js_or (opt_minTimeBetweenCalls options) 2000"
    by (simp add: rateLimiterRef_initial_def new_RateLimiter_def)
  have same: "rateLimiterRef_effect now options current = rateLimiterRef_initial now options"
    by (simp add: rateLimiterRef_effect_def rateLimiterRef_initial_def)
  show ?thesis
    using or_cases [of "opt_maxCallsPerMinute options" 10]
      or_cases [of "opt_minTimeBetweenCalls options" 2000]
    by (simp add: mx mn same)
qed

theorem panel_limiter_defaults_witness:
  "falsy (JNum 0) \<and> \<not> falsy (JNum 5) \<and>
   maxCallsPerMinute (rateLimiterRef_initial 1700000000000
      \<lparr> opt_maxCallsPerMinute = JNum 0, opt_minTimeBetweenCalls = JNum 0 \<rparr>) = 10 \<and>
   minTimeBetweenCalls (rateLimiterRef_initial 1700000000000
      \<lparr> opt_maxCallsPerMinute = JNum 0, opt_minTimeBetweenCalls = JNum 0 \<rparr>) = 2000 \<and>
   maxCallsPerMinute (rateLimiterRef_initial 1700000000000
      \<lparr> opt_maxCallsPerMinute = JNum 5, opt_minTimeBetweenCalls = JNum 500 \<rparr>) = 5 \<and>
   minTimeBetweenCalls (rateLimiterRef_initial 1700000000000
      \<lparr> opt_maxCallsPerMinute = JNum 5, opt_minTimeBetweenCalls = JNum 500 \<rparr>) = 500"
  using panel_limiter_defaults
    [of "\<lparr> opt_maxCallsPerMinute = JNum 0, opt_minTimeBetweenCalls = JNum 0 \<rparr>" 1700000000000]
    panel_limiter_defaults
    [of "\<lparr> opt_maxCallsPerMinute = JNum 5, opt_minTimeBetweenCalls = JNum 500 \<rparr>" 1700000000000]
  by simp

text \<open>
  A negative option is truthy and reaches the constructor unchanged; such a limiter
  denies every call, by the theorem on a non-positive maximum.
\<close>

lemma panel_limiter_negative_max:
  "maxCallsPerMinute (rateLimiterRef_initial now
      \<lparr> opt_maxCallsPerMinute = JNum (- 1), opt_minTimeBetweenCalls = JUndefined \<rparr>) = - 1"
  by (simp add: rateLimiterRef_initial_def new_RateLimiter_def)

end
